theory Spec2Isabelle
  imports Complex_Main "HOL-Library.Monad_Syntax"
begin

section \<open>JavaScript values\<close>

text \<open>
  The front end (\<^verbatim>\<open>app/static/js/main.js\<close>, \<^verbatim>\<open>app/static/js/analytics.js\<close>) works on
  loosely typed JSON payloads. A value is modelled as the JavaScript value that
  \<^verbatim>\<open>JSON.parse\<close> yields, plus \<^verbatim>\<open>undefined\<close>, which is what reading a missing property
  gives. A number is the exact rational value of the (finite) double; an object is the
  association list of its own properties, the first binding of a key being the one that
  counts.

  A computed number (the result of \<^verbatim>\<open>Math.round\<close> or of a numeric coercion) may also be
  \<^verbatim>\<open>NaN\<close> or infinite.

  Left to the platform, and so kept abstract: the characters that ToString produces (a
  template hole keeps its value), the reading of a string as a number (a parameter), and
  the texts of \<^verbatim>\<open>JSON.stringify\<close> (a JSON text is given by the value it denotes). The
  markup around the holes of a template is fixed and is not repeated here.
\<close>

datatype jsnum = Fin rat | PosInf | NegInf | NaN

datatype jsval =
    JUndefined
  | JNull
  | JBool bool
  | JNum rat
  | JStr string
  | JArr "jsval list"
  | JObj "(string \<times> jsval) list"

datatype js_error = TypeError | SyntaxError | FetchFailed

text \<open>How a call ends: it returns, it throws, or (an \<^verbatim>\<open>async\<close> function) it is still
  waiting at an \<^verbatim>\<open>await\<close> whose promise has not settled.\<close>

datatype completion = Returned | Threw js_error | Suspended

text \<open>
  Property access \<^verbatim>\<open>v.k\<close>, for the property names the code reads (none of them is
  defined on a prototype, \<^verbatim>\<open>length\<close> apart, which strings and arrays own). Reading a
  property of \<^verbatim>\<open>undefined\<close> or \<^verbatim>\<open>null\<close> throws a TypeError, written \<open>None\<close>.
\<close>

fun get_prop :: "jsval \<Rightarrow> string \<Rightarrow> jsval option" where
  "get_prop JUndefined k = None"
| "get_prop JNull k = None"
| "get_prop (JObj kvs) k = Some (case map_of kvs k of None \<Rightarrow> JUndefined | Some v \<Rightarrow> v)"
| "get_prop (JArr xs) k =
     Some (if k = ''length'' then JNum (of_nat (length xs)) else JUndefined)"
| "get_prop (JStr s) k =
     Some (if k = ''length'' then JNum (of_nat (length s)) else JUndefined)"
| "get_prop (JBool b) k = Some JUndefined"
| "get_prop (JNum n) k = Some JUndefined"

text \<open>ToBoolean, as used by \<^verbatim>\<open>!x\<close>, \<^verbatim>\<open>x && y\<close>, \<^verbatim>\<open>x || y\<close>.\<close>

fun truthy :: "jsval \<Rightarrow> bool" where
  "truthy JUndefined = False"
| "truthy JNull = False"
| "truthy (JBool b) = b"
| "truthy (JNum n) = (n \<noteq> 0)"
| "truthy (JStr s) = (s \<noteq> [])"
| "truthy (JArr xs) = True"
| "truthy (JObj kvs) = True"

text \<open>
  ToString, as applied by a template literal \<^verbatim>\<open>${v}\<close> and by \<^verbatim>\<open>Array.prototype.join\<close>.
  The text it produces is left to the platform; the model keeps the value in the
  template's hole. What matters is when the conversion throws: an object parsed from JSON
  that has an own property \<^verbatim>\<open>toString\<close> shadows the inherited method with a value that is
  not callable, so converting it to a primitive throws a TypeError; an array converts
  each of its elements.
\<close>

fun to_string_ok :: "jsval \<Rightarrow> bool" where
  "to_string_ok (JObj kvs) = (map_of kvs ''toString'' = None)"
| "to_string_ok (JArr xs) = list_all to_string_ok xs"
| "to_string_ok JUndefined = True"
| "to_string_ok JNull = True"
| "to_string_ok (JBool b) = True"
| "to_string_ok (JNum n) = True"
| "to_string_ok (JStr s) = True"

text \<open>A template hole \<^verbatim>\<open>${v}\<close>: the value, or a TypeError.\<close>

definition interpolate :: "jsval \<Rightarrow> jsval option" where
  "interpolate v = (if to_string_ok v then Some v else None)"

text \<open>
  ToNumber. Reading a string as a number (and an array through its string form) rounds
  a decimal text to a double, which is the platform's work: it is the parameter
  \<open>numeric\<close>. A plain object reads as \<^verbatim>\<open>"[object Object]"\<close>, which is \<^verbatim>\<open>NaN\<close>.
\<close>

definition ToNumber :: "(jsval \<Rightarrow> jsnum) \<Rightarrow> jsval \<Rightarrow> jsnum option" where
  "ToNumber numeric v =
     (case v of
        JUndefined \<Rightarrow> Some NaN
      | JNull \<Rightarrow> Some (Fin 0)
      | JBool b \<Rightarrow> Some (Fin (if b then 1 else 0))
      | JNum n \<Rightarrow> Some (Fin n)
      | JStr s \<Rightarrow> Some (numeric v)
      | JArr xs \<Rightarrow> (if to_string_ok v then Some (numeric v) else None)
      | JObj kvs \<Rightarrow> (if to_string_ok v then Some NaN else None))"

text \<open>\<^verbatim>\<open>Math.round\<close>: the closest integer, a tie going towards \<open>+\<infinity>\<close>.\<close>

fun round_num :: "jsnum \<Rightarrow> jsnum" where
  "round_num (Fin x) = Fin (of_int (round x))"
| "round_num PosInf = PosInf"
| "round_num NegInf = NegInf"
| "round_num NaN = NaN"

definition Math_round :: "(jsval \<Rightarrow> jsnum) \<Rightarrow> jsval \<Rightarrow> jsnum option" where
  "Math_round numeric v = map_option round_num (ToNumber numeric v)"

text \<open>The comparisons \<^verbatim>\<open>x >= c\<close> and \<^verbatim>\<open>x > c\<close> of a number with a constant.\<close>

fun num_ge :: "jsnum \<Rightarrow> rat \<Rightarrow> bool" where
  "num_ge (Fin x) c = (c \<le> x)"
| "num_ge PosInf c = True"
| "num_ge NegInf c = False"
| "num_ge NaN c = False"

fun num_gt :: "jsnum \<Rightarrow> rat \<Rightarrow> bool" where
  "num_gt (Fin x) c = (c < x)"
| "num_gt PosInf c = True"
| "num_gt NegInf c = False"
| "num_gt NaN c = False"

text \<open>
  \<^verbatim>\<open>xs.join(sep)\<close>: defined on arrays only (on anything else the method is missing
  and the call throws); each element is converted to a string. The result keeps the
  elements in order; the separator is the template's.
\<close>

definition js_join :: "jsval \<Rightarrow> jsval list option" where
  "js_join v =
     (case v of
        JArr xs \<Rightarrow> (if list_all to_string_ok xs then Some xs else None)
      | _ \<Rightarrow> None)"

text \<open>\<^verbatim>\<open>xs.map(x => `<li>${x}</li>`).join('')\<close>: one list item per element, in order.\<close>

definition js_map_li :: "jsval \<Rightarrow> jsval list option" where
  "js_map_li v =
     (case v of
        JArr xs \<Rightarrow> (if list_all to_string_ok xs then Some xs else None)
      | _ \<Rightarrow> None)"

text \<open>
  A text handed to \<^verbatim>\<open>JSON.parse\<close> (a response body, a stored entry) is either a JSON
  text, modelled by the value it denotes, or some other string, which \<^verbatim>\<open>JSON.parse\<close>
  rejects with a SyntaxError. The empty string is \<open>RawText []\<close>. \<^verbatim>\<open>JSON.stringify\<close> of
  JSON data gives a text that denotes the same data.
\<close>

datatype js_text = JsonText jsval | RawText string

fun JSON_parse :: "js_text \<Rightarrow> jsval option" where
  "JSON_parse (JsonText v) = Some v"
| "JSON_parse (RawText s) = None"

definition JSON_stringify :: "jsval \<Rightarrow> js_text" where
  "JSON_stringify v = JsonText v"


section \<open>The page\<close>

text \<open>
  The result card that \<^verbatim>\<open>displayResults\<close> builds is a template literal with fixed markup
  and holes. The card is modelled by the contents of its holes, in the order of the
  template: the badge's class and percentage, the four metric tiles, the reasoning, the
  revenue potential, the recommended hours (joined with \<^verbatim>\<open>', '\<close>), the three optional
  blocks (\<open>None\<close> when the template inserts the empty string instead of the block), the
  setup requirements, the recommended duration and the analysis id of the save button.
\<close>

record card =
  confidence_class :: string
  confidence_percent :: jsnum
  foot_traffic_tile :: jsnum
  market_opportunity_tile :: jsnum
  demographic_match_tile :: jsnum
  market_gaps_tile :: jsval
  reasoning :: jsval
  revenue_potential :: jsval
  recommended_hours :: "jsval list"
  category_gaps_block :: "jsval list option"
  attractions_block :: "jsval list option"
  risk_factors_block :: "jsval list option"
  setup_requirements :: "jsval list"
  recommended_duration :: jsval
  save_button_id :: jsval

text \<open>The top-level blocks that the code writes into \<^verbatim>\<open>#results-content\<close>.\<close>

datatype panel = ResultCard card | ErrorMessage jsval | SuccessMessage string

text \<open>What the code does to the outside, in the order it does it.\<close>

datatype effect =
    ShowLoading
  | HideLoading
  | FetchPost string jsval
  | ScrollIntoView
  | FocusLocation
  | ConsoleDebug

text \<open>
  The state the code reads and writes. An element that \<^verbatim>\<open>document.getElementById\<close> does
  not find is \<open>None\<close>.
  \<^item> \<open>loading_modal\<close>, \<open>results_section\<close>: whether the element's class list has \<^verbatim>\<open>hidden\<close>;
  \<^item> \<open>results_content\<close>: the \<^verbatim>\<open>innerHTML\<close> of \<^verbatim>\<open>#results-content\<close>, as its sequence of blocks;
  \<^item> \<open>location_form\<close>: the form, given by the value its reset gives the location field;
  \<^item> \<open>location_input\<close>: the value of \<^verbatim>\<open>#location\<close>;
  \<^item> \<open>saved_analyses\<close>: the entry \<^verbatim>\<open>savedAnalyses\<close> of \<^verbatim>\<open>localStorage\<close>;
  \<^item> \<open>effects\<close>: the log of calls with an outside effect.
\<close>

record world =
  loading_modal :: "bool option"
  results_section :: "bool option"
  results_content :: "panel list option"
  location_form :: "string option"
  location_input :: "string option"
  saved_analyses :: "js_text option"
  effects :: "effect list"

text \<open>A promise as the code sees it at an \<^verbatim>\<open>await\<close> or a \<^verbatim>\<open>.catch\<close>.\<close>

datatype 'a promise = Pending | Rejected | Fulfilled 'a

record response =
  response_ok :: bool
  response_body :: js_text

text \<open>What the submit handler reads from the form: \<^verbatim>\<open>formData.get\<close> gives \<^verbatim>\<open>null\<close>
  (\<open>None\<close>) for a field the form does not have.\<close>

record submission =
  form_location :: "string option"
  form_business_type :: "string option"
  checked_demographics :: "string list"

section \<open>ChoksApp\<close>

definition showLoading :: "world \<Rightarrow> world" where
  "showLoading w =
     (let w1 = w\<lparr>effects := effects w @ [ShowLoading]\<rparr>
      in case loading_modal w1 of
           None \<Rightarrow> w1
         | Some h \<Rightarrow> w1\<lparr>loading_modal := Some False\<rparr>)"

definition hideLoading :: "world \<Rightarrow> world" where
  "hideLoading w =
     (let w1 = w\<lparr>effects := effects w @ [HideLoading]\<rparr>
      in case loading_modal w1 of
           None \<Rightarrow> w1
         | Some h \<Rightarrow> w1\<lparr>loading_modal := Some True\<rparr>)"

definition getConfidenceClass :: "(jsval \<Rightarrow> jsnum) \<Rightarrow> jsval \<Rightarrow> string option" where
  "getConfidenceClass numeric score =
     (case ToNumber numeric score of
        None \<Rightarrow> None
      | Some n \<Rightarrow>
          Some (if num_ge n 70 then ''confidence-high''
                else if num_ge n 50 then ''confidence-medium''
                else ''confidence-low''))"

text \<open>\<^verbatim>\<open>${xs.length > 0 ? `...${items}...` : ''}\<close>\<close>

definition optional_block ::
  "(jsval \<Rightarrow> jsnum) \<Rightarrow> jsval \<Rightarrow> (jsval \<Rightarrow> jsval list option) \<Rightarrow> jsval list option option" where
  "optional_block numeric xs items =
     do {
       len \<leftarrow> get_prop xs ''length'';
       n \<leftarrow> ToNumber numeric len;
       if num_gt n 0 then map_option Some (items xs) else Some None
     }"

text \<open>Lines 100 to 190 of \<^verbatim>\<open>displayResults\<close>: the template, evaluated hole by hole.
  \<open>None\<close> is a TypeError.\<close>

definition render_card :: "(jsval \<Rightarrow> jsnum) \<Rightarrow> jsval \<Rightarrow> card option" where
  "render_card numeric result =
     do {
       recommendation \<leftarrow> get_prop result ''recommendation'';
       insights \<leftarrow> get_prop recommendation ''insights'';
       score \<leftarrow> get_prop recommendation ''confidence_score'';
       cls \<leftarrow> getConfidenceClass numeric score;
       pct \<leftarrow> Math_round numeric score;
       foot \<leftarrow> get_prop insights ''foot_traffic_score'';
       foot_r \<leftarrow> Math_round numeric foot;
       comp \<leftarrow> get_prop insights ''competition_density'';
       comp_r \<leftarrow> Math_round numeric comp;
       demo \<leftarrow> get_prop insights ''demographic_match'';
       demo_r \<leftarrow> Math_round numeric demo;
       gaps \<leftarrow> get_prop insights ''category_gaps'';
       gaps_len \<leftarrow> get_prop gaps ''length'';
       gaps_n \<leftarrow> interpolate gaps_len;
       reason \<leftarrow> get_prop recommendation ''reasoning'';
       reason_s \<leftarrow> interpolate reason;
       revenue \<leftarrow> get_prop recommendation ''estimated_revenue_potential'';
       revenue_s \<leftarrow> interpolate revenue;
       hours \<leftarrow> get_prop insights ''optimal_hours'';
       hours_s \<leftarrow> js_join hours;
       gaps_b \<leftarrow> optional_block numeric gaps js_join;
       attractions \<leftarrow> get_prop insights ''nearby_attractions'';
       attractions_b \<leftarrow> optional_block numeric attractions js_join;
       risks \<leftarrow> get_prop insights ''risk_factors'';
       risks_b \<leftarrow> optional_block numeric risks js_map_li;
       setup \<leftarrow> get_prop recommendation ''setup_requirements'';
       setup_s \<leftarrow> js_map_li setup;
       duration \<leftarrow> get_prop recommendation ''recommended_duration'';
       duration_s \<leftarrow> interpolate duration;
       aid \<leftarrow> get_prop result ''analysis_id'';
       aid_s \<leftarrow> interpolate aid;
       Some \<lparr>confidence_class = cls, confidence_percent = pct,
             foot_traffic_tile = foot_r, market_opportunity_tile = comp_r,
             demographic_match_tile = demo_r, market_gaps_tile = gaps_n,
             reasoning = reason_s, revenue_potential = revenue_s,
             recommended_hours = hours_s, category_gaps_block = gaps_b,
             attractions_block = attractions_b, risk_factors_block = risks_b,
             setup_requirements = setup_s, recommended_duration = duration_s,
             save_button_id = aid_s\<rparr>
     }"

definition displayResults :: "(jsval \<Rightarrow> jsnum) \<Rightarrow> jsval \<Rightarrow> world \<Rightarrow> completion \<times> world" where
  "displayResults numeric result w =
     (if results_section w = None \<or> results_content w = None then (Returned, w)
      else case render_card numeric result of
             None \<Rightarrow> (Threw TypeError, w)
           | Some c \<Rightarrow>
               (Returned,
                w\<lparr>results_content := Some [ResultCard c],
                  results_section := Some False,
                  effects := effects w @ [ScrollIntoView]\<rparr>))"

text \<open>\<^verbatim>\<open>showError\<close>: the template is evaluated first; then the content is replaced;
  then the section is unhidden, which throws when the section is missing.\<close>

definition showError :: "jsval \<Rightarrow> world \<Rightarrow> completion \<times> world" where
  "showError message w =
     (case interpolate message of
        None \<Rightarrow> (Threw TypeError, w)
      | Some m \<Rightarrow>
          (case results_content w of
             None \<Rightarrow> (Returned, w)
           | Some old \<Rightarrow>
               (let w1 = w\<lparr>results_content := Some [ErrorMessage m]\<rparr>
                in case results_section w1 of
                     None \<Rightarrow> (Threw TypeError, w1)
                   | Some h \<Rightarrow> (Returned, w1\<lparr>results_section := Some False\<rparr>))))"

definition showSuccess :: "string \<Rightarrow> world \<Rightarrow> world" where
  "showSuccess message w =
     (case results_content w of
        None \<Rightarrow> w
      | Some old \<Rightarrow> w\<lparr>results_content := Some (SuccessMessage message # old)\<rparr>)"


text \<open>\<^verbatim>\<open>!value\<close> for what \<^verbatim>\<open>formData.get\<close> returns: \<^verbatim>\<open>null\<close> and the empty string are falsy.\<close>

definition blank :: "string option \<Rightarrow> bool" where
  "blank v = (case v of None \<Rightarrow> True | Some s \<Rightarrow> s = [])"

definition form_value :: "string option \<Rightarrow> jsval" where
  "form_value v = (case v of None \<Rightarrow> JNull | Some s \<Rightarrow> JStr s)"

definition analyze_request :: "submission \<Rightarrow> effect" where
  "analyze_request ev =
     FetchPost ''/api/analyze''
       (JObj [(''location'', form_value (form_location ev)),
              (''business_type'', form_value (form_business_type ev)),
              (''target_demographics'', JArr (map JStr (checked_demographics ev)))])"

text \<open>
  \<^verbatim>\<open>handleLocationAnalysis\<close> up to its first \<^verbatim>\<open>await\<close> (lines 29 to 57): the validation,
  \<^verbatim>\<open>showLoading\<close>, and the call of \<^verbatim>\<open>fetch\<close>.
\<close>

definition handleLocationAnalysis_start :: "submission \<Rightarrow> world \<Rightarrow> completion \<times> world" where
  "handleLocationAnalysis_start ev w =
     (if blank (form_location ev) \<or> blank (form_business_type ev)
      then showError (JStr ''Please fill in all required fields'') w
      else (let w1 = showLoading w
            in (Suspended, w1\<lparr>effects := effects w1 @ [analyze_request ev]\<rparr>)))"

text \<open>The body of the \<^verbatim>\<open>try\<close> after \<^verbatim>\<open>fetch\<close> has settled (lines 47 to 65). A rejected
  \<^verbatim>\<open>fetch\<close> and a body that is not JSON throw at their \<^verbatim>\<open>await\<close>.\<close>

definition analysis_try ::
  "(jsval \<Rightarrow> jsnum) \<Rightarrow> response promise \<Rightarrow> world \<Rightarrow> completion \<times> world" where
  "analysis_try numeric outcome w =
     (case outcome of
        Pending \<Rightarrow> (Suspended, w)
      | Rejected \<Rightarrow> (Threw FetchFailed, w)
      | Fulfilled r \<Rightarrow>
          (case JSON_parse (response_body r) of
             None \<Rightarrow> (Threw SyntaxError, w)
           | Some result \<Rightarrow>
               (case (if response_ok r then map_option truthy (get_prop result ''success'')
                      else Some False) of
                  None \<Rightarrow> (Threw TypeError, w)
                | Some True \<Rightarrow> displayResults numeric result w
                | Some False \<Rightarrow>
                    (case get_prop result ''error'' of
                       None \<Rightarrow> (Threw TypeError, w)
                     | Some e \<Rightarrow>
                         showError (if truthy e then e else JStr ''Analysis failed'') w))))"

text \<open>The rest of \<^verbatim>\<open>handleLocationAnalysis\<close>, run when \<^verbatim>\<open>fetch\<close> has settled: the
  \<^verbatim>\<open>try\<close>, the \<^verbatim>\<open>catch\<close> (lines 66, 67) and the \<^verbatim>\<open>finally\<close> (lines 68, 69).\<close>

definition handleLocationAnalysis_resume ::
  "(jsval \<Rightarrow> jsnum) \<Rightarrow> response promise \<Rightarrow> world \<Rightarrow> completion \<times> world" where
  "handleLocationAnalysis_resume numeric outcome w =
     (case analysis_try numeric outcome w of
        (Suspended, w1) \<Rightarrow> (Suspended, w1)
      | (Threw e, w1) \<Rightarrow>
          (case showError (JStr ''Network error: Please check your connection'') w1 of
             (c, w2) \<Rightarrow> (c, hideLoading w2))
      | (Returned, w1) \<Rightarrow> (Returned, hideLoading w1))"

definition handleLocationAnalysis ::
  "(jsval \<Rightarrow> jsnum) \<Rightarrow> submission \<Rightarrow> response promise \<Rightarrow> world \<Rightarrow> completion \<times> world" where
  "handleLocationAnalysis numeric ev outcome w =
     (case handleLocationAnalysis_start ev w of
        (Suspended, w1) \<Rightarrow> handleLocationAnalysis_resume numeric outcome w1
      | (c, w1) \<Rightarrow> (c, w1))"

text \<open>\<^verbatim>\<open>localStorage.getItem('savedAnalyses') || '[]'\<close>: a missing entry and the empty
  string are falsy.\<close>

definition stored_or_default :: "js_text option \<Rightarrow> js_text" where
  "stored_or_default entry =
     (case entry of
        None \<Rightarrow> JsonText (JArr [])
      | Some t \<Rightarrow> (if t = RawText [] then JsonText (JArr []) else t))"

definition saved_record :: "string \<Rightarrow> string \<Rightarrow> string \<Rightarrow> jsval" where
  "saved_record analysisId now loc =
     JObj [(''id'', JStr analysisId), (''timestamp'', JStr now), (''location'', JStr loc)]"

text \<open>
  \<^verbatim>\<open>saveAnalysis\<close>; \<open>now\<close> is \<^verbatim>\<open>new Date().toISOString()\<close>. \<^verbatim>\<open>push\<close> exists on arrays only,
  and reading the value of a missing \<^verbatim>\<open>#location\<close> throws; both are TypeErrors raised
  before anything is written.
\<close>

definition saveAnalysis :: "string \<Rightarrow> string \<Rightarrow> world \<Rightarrow> completion \<times> world" where
  "saveAnalysis analysisId now w =
     (case JSON_parse (stored_or_default (saved_analyses w)) of
        None \<Rightarrow> (Threw SyntaxError, w)
      | Some (JArr savedAnalyses) \<Rightarrow>
          (case location_input w of
             None \<Rightarrow> (Threw TypeError, w)
           | Some loc \<Rightarrow>
               (Returned,
                showSuccess ''Analysis saved successfully!''
                  (w\<lparr>saved_analyses :=
                       Some (JSON_stringify
                               (JArr (savedAnalyses @ [saved_record analysisId now loc])))\<rparr>)))
      | Some other \<Rightarrow> (Threw TypeError, w))"

definition newAnalysis :: "world \<Rightarrow> completion \<times> world" where
  "newAnalysis w =
     (case location_form w of
        None \<Rightarrow> (Threw TypeError, w)
      | Some dflt \<Rightarrow>
          (let w1 = w\<lparr>location_input := map_option (\<lambda>old. dflt) (location_input w)\<rparr>
           in case results_section w1 of
                None \<Rightarrow> (Threw TypeError, w1)
              | Some h \<Rightarrow>
                  (let w2 = w1\<lparr>results_section := Some True\<rparr>
                   in case location_input w2 of
                        None \<Rightarrow> (Threw TypeError, w2)
                      | Some v \<Rightarrow> (Returned, w2\<lparr>effects := effects w2 @ [FocusLocation]\<rparr>))))"

section \<open>Analytics\<close>

text \<open>
  \<^verbatim>\<open>sendEvent\<close> calls \<^verbatim>\<open>fetch\<close> and attaches a \<^verbatim>\<open>.catch\<close> handler to the promise; it
  does not wait. When the promise is rejected the handler logs with \<^verbatim>\<open>console.debug\<close>;
  a fulfilled promise (whatever the status of the response) is ignored.
\<close>

definition sendEvent :: "string \<Rightarrow> jsval \<Rightarrow> response promise \<Rightarrow> world \<Rightarrow> completion \<times> world" where
  "sendEvent eventType data outcome w =
     (let w1 = w\<lparr>effects := effects w @
                   [FetchPost ''/api/analytics''
                      (JObj [(''event_type'', JStr eventType), (''data'', data)])]\<rparr>
      in (Returned,
          case outcome of
            Rejected \<Rightarrow> w1\<lparr>effects := effects w1 @ [ConsoleDebug]\<rparr>
          | _ \<Rightarrow> w1))"


section \<open>Sessions\<close>

text \<open>
  What can happen on the page, one event at a time. A submission is two events: the
  submit handler runs up to its \<^verbatim>\<open>await\<close>, and it resumes when \<^verbatim>\<open>fetch\<close> has settled;
  other events may come in between. \<open>LocationTyped\<close> is the user editing the location
  field (its listener \<^verbatim>\<open>validateLocation\<close> only sets the border colour, which the state
  does not record). An exception that leaves a handler ends that handler and nothing
  else.
\<close>

datatype ui_event =
    FormSubmitted submission
  | AnalyzeSettled "response promise"
  | SaveClicked string string
  | NewAnalysisClicked
  | LocationTyped string
  | AnalyticsSent string jsval "response promise"

definition typeLocation :: "string \<Rightarrow> world \<Rightarrow> world" where
  "typeLocation v w = w\<lparr>location_input := map_option (\<lambda>old. v) (location_input w)\<rparr>"

fun react :: "(jsval \<Rightarrow> jsnum) \<Rightarrow> ui_event \<Rightarrow> world \<Rightarrow> world" where
  "react numeric (FormSubmitted ev) w = snd (handleLocationAnalysis_start ev w)"
| "react numeric (AnalyzeSettled outcome) w = snd (handleLocationAnalysis_resume numeric outcome w)"
| "react numeric (SaveClicked analysisId now) w = snd (saveAnalysis analysisId now w)"
| "react numeric NewAnalysisClicked w = snd (newAnalysis w)"
| "react numeric (LocationTyped v) w = typeLocation v w"
| "react numeric (AnalyticsSent eventType data outcome) w =
     snd (sendEvent eventType data outcome w)"

fun run :: "(jsval \<Rightarrow> jsnum) \<Rightarrow> ui_event list \<Rightarrow> world \<Rightarrow> world" where
  "run numeric [] w = w"
| "run numeric (e # es) w = run numeric es (react numeric e w)"




text \<open>What the user can perceive: the page, the stored list and the page's own
  effects, without the requests sent and the lines of the developer console.\<close>

fun user_visible_effect :: "effect \<Rightarrow> bool" where
  "user_visible_effect (FetchPost url body) = False"
| "user_visible_effect ConsoleDebug = False"
| "user_visible_effect ShowLoading = True"
| "user_visible_effect HideLoading = True"
| "user_visible_effect ScrollIntoView = True"
| "user_visible_effect FocusLocation = True"

definition user_visible :: "world \<Rightarrow> world" where
  "user_visible w = w\<lparr>effects := filter user_visible_effect (effects w)\<rparr>"

text \<open>A handler is blind to the effect log when it only appends to it: run on the same
  state with another log, it ends the same way, in the same state, with the same
  entries appended.\<close>

definition effect_blind :: "(world \<Rightarrow> completion \<times> world) \<Rightarrow> world \<Rightarrow> bool" where
  "effect_blind f w \<longleftrightarrow>
     (\<exists>c v new. \<forall>es. f (w\<lparr>effects := es\<rparr>) = (c, v\<lparr>effects := es @ new\<rparr>))"

text \<open>Reading the save-list the way \<^verbatim>\<open>saveAnalysis\<close> does: the stored sequence, the
  empty one by default, or nothing when the entry does not hold a sequence.\<close>

definition persisted_sequence :: "world \<Rightarrow> jsval list option" where
  "persisted_sequence w =
     (case JSON_parse (stored_or_default (saved_analyses w)) of
        Some (JArr xs) \<Rightarrow> Some xs
      | _ \<Rightarrow> None)"


section \<open>Examples\<close>

text \<open>A page with all the elements of the template, nothing displayed, nothing saved.\<close>

definition page0 :: world where
  "page0 = \<lparr>loading_modal = Some True, results_section = Some True,
            results_content = Some [], location_form = Some [],
            location_input = Some ''Downtown Plaza'', saved_analyses = None,
            effects = []\<rparr>"

text \<open>A platform on which no string reads as a number; the examples do not depend on it.\<close>

definition numeric0 :: "jsval \<Rightarrow> jsnum" where
  "numeric0 v = NaN"

definition submission0 :: submission where
  "submission0 = \<lparr>form_location = Some ''Downtown Plaza'',
                  form_business_type = Some ''food_truck'',
                  checked_demographics = [''young_professionals'']\<rparr>"

definition insights0 :: jsval where
  "insights0 =
     JObj [(''foot_traffic_score'', JNum 91.2), (''competition_density'', JNum 40),
           (''demographic_match'', JNum 77.6), (''category_gaps'', JArr [JStr ''vegan'']),
           (''nearby_attractions'', JArr []), (''risk_factors'', JArr []),
           (''optimal_hours'', JArr [JStr ''11:00-14:00''])]"

definition recommendation0 :: jsval where
  "recommendation0 =
     JObj [(''confidence_score'', JNum 82.4), (''insights'', insights0),
           (''reasoning'', JStr ''High lunch-hour demand''),
           (''estimated_revenue_potential'', JStr ''$800-1200/day''),
           (''setup_requirements'', JArr [JStr ''permit A'']),
           (''recommended_duration'', JStr ''3 months'')]"

definition result0 :: jsval where
  "result0 =
     JObj [(''success'', JBool True), (''analysis_id'', JStr ''a1''),
           (''recommendation'', recommendation0)]"



section \<open>Frame lemmas\<close>

lemma floor_rat_numeral: "\<lfloor>numeral a / numeral b :: rat\<rfloor> = numeral a div numeral b"
  by (metis floor_divide_of_int_eq of_int_numeral)

lemma showError_frame:
  assumes "showError m w = (c, w1)"
  shows "c \<noteq> Suspended" and "effects w1 = effects w" and "loading_modal w1 = loading_modal w"
    and "saved_analyses w1 = saved_analyses w" and "location_input w1 = location_input w"
  using assms by (auto simp: showError_def Let_def split: option.splits)

lemma showError_shown:
  assumes "results_content w = Some old" and "results_section w = Some h" and "to_string_ok m"
  shows "showError m w =
           (Returned, w\<lparr>results_content := Some [ErrorMessage m], results_section := Some False\<rparr>)"
  using assms by (simp add: showError_def interpolate_def)

lemma displayResults_frame:
  assumes "displayResults numeric result w = (c, w1)"
  shows "c \<noteq> Suspended" and "effects w1 = effects w \<or> effects w1 = effects w @ [ScrollIntoView]"
    and "loading_modal w1 = loading_modal w"
  using assms by (auto simp: displayResults_def split: if_splits option.splits)

lemma analysis_try_frame:
  assumes "analysis_try numeric outcome w = (c, w1)" and "outcome \<noteq> Pending"
  shows "c \<noteq> Suspended" and "effects w1 = effects w \<or> effects w1 = effects w @ [ScrollIntoView]"
    and "loading_modal w1 = loading_modal w"
  using assms
  by (auto simp: analysis_try_def split: promise.splits option.splits bool.splits if_splits
      dest: showError_frame displayResults_frame)

lemma hideLoading_frame:
  "effects (hideLoading w) = effects w @ [HideLoading]"
  "loading_modal (hideLoading w) = map_option (\<lambda>h. True) (loading_modal w)"
  by (simp_all add: hideLoading_def Let_def split: option.splits)

lemma resume_frame:
  assumes "handleLocationAnalysis_resume numeric outcome w = (c, w2)" and "outcome \<noteq> Pending"
  shows "c \<noteq> Suspended"
    and "\<exists>mid. effects w2 = effects w @ mid @ [HideLoading] \<and> set mid \<subseteq> {ScrollIntoView}"
    and "loading_modal w2 = map_option (\<lambda>h. True) (loading_modal w)"
proof -
  obtain c1 w1 where t: "analysis_try numeric outcome w = (c1, w1)"
    by (cases "analysis_try numeric outcome w")
  note f = analysis_try_frame [OF t assms(2)]
  show "c \<noteq> Suspended"
    using assms(1) t f(1)
    by (cases c1) (auto simp: handleLocationAnalysis_resume_def split: prod.splits dest: showError_frame(1))
  from f(2) obtain mid where mid: "effects w1 = effects w @ mid" "set mid \<subseteq> {ScrollIntoView}"
    by (cases "effects w1 = effects w") auto
  show "\<exists>mid. effects w2 = effects w @ mid @ [HideLoading] \<and> set mid \<subseteq> {ScrollIntoView}"
    using assms(1) t f(1) mid
    by (cases c1)
      (auto simp: handleLocationAnalysis_resume_def hideLoading_frame split: prod.splits
        dest: showError_frame(2))
  show "loading_modal w2 = map_option (\<lambda>h. True) (loading_modal w)"
    using assms(1) t f(1) f(3)
    by (cases c1)
      (auto simp: handleLocationAnalysis_resume_def hideLoading_frame split: prod.splits
        dest: showError_frame(3))
qed


lemma start_valid:
  assumes "\<not> blank (form_location ev)" and "\<not> blank (form_business_type ev)"
  shows "handleLocationAnalysis_start ev w =
           (Suspended, (showLoading w)\<lparr>effects := effects w @ [ShowLoading, analyze_request ev]\<rparr>)"
  using assms
  by (simp add: handleLocationAnalysis_start_def showLoading_def Let_def split: option.splits)

lemma start_valid_frame:
  assumes "\<not> blank (form_location ev)" and "\<not> blank (form_business_type ev)"
  shows "results_content (snd (handleLocationAnalysis_start ev w)) = results_content w"
    and "results_section (snd (handleLocationAnalysis_start ev w)) = results_section w"
    and "loading_modal (snd (handleLocationAnalysis_start ev w)) =
           map_option (\<lambda>h. False) (loading_modal w)"
  using assms
  by (simp_all add: handleLocationAnalysis_start_def showLoading_def Let_def split: option.splits)

section \<open>The submit handler\<close>

text \<open>
  Claim C1. For a submission that passes the validation, with the loading modal on the
  page and a \<^verbatim>\<open>fetch\<close> that settles: the handler stops at its \<^verbatim>\<open>await\<close> with the
  indicator visible, \<^verbatim>\<open>showLoading\<close> logged before the request; when it has finished,
  whether it returned or threw, the indicator is hidden, and after the request the log
  holds \<^verbatim>\<open>hideLoading\<close> exactly once, as its last entry.
\<close>

theorem loading_indicator_scoped:
  assumes "\<not> blank (form_location ev)" and "\<not> blank (form_business_type ev)"
    and "loading_modal w = Some h" and "outcome \<noteq> Pending"
  shows "fst (handleLocationAnalysis_start ev w) = Suspended \<and>
         loading_modal (snd (handleLocationAnalysis_start ev w)) = Some False \<and>
         effects (snd (handleLocationAnalysis_start ev w)) =
           effects w @ [ShowLoading, analyze_request ev] \<and>
         fst (handleLocationAnalysis numeric ev outcome w) \<noteq> Suspended \<and>
         loading_modal (snd (handleLocationAnalysis numeric ev outcome w)) = Some True \<and>
         (\<exists>mid. effects (snd (handleLocationAnalysis numeric ev outcome w)) =
                  effects (snd (handleLocationAnalysis_start ev w)) @ mid @ [HideLoading] \<and>
                set mid \<subseteq> {ScrollIntoView})"
proof -
  let ?w1 = "(showLoading w)\<lparr>effects := effects w @ [ShowLoading, analyze_request ev]\<rparr>"
  have start: "handleLocationAnalysis_start ev w = (Suspended, ?w1)"
    using assms(1,2) by (rule start_valid)
  have shown: "loading_modal ?w1 = Some False"
    using assms(3) by (simp add: showLoading_def Let_def)
  obtain c w2 where fin: "handleLocationAnalysis_resume numeric outcome ?w1 = (c, w2)"
    by (cases "handleLocationAnalysis_resume numeric outcome ?w1")
  have whole: "handleLocationAnalysis numeric ev outcome w = (c, w2)"
    by (simp add: handleLocationAnalysis_def start fin)
  note f = resume_frame [OF fin assms(4)]
  show ?thesis
    using f shown by (simp add: start whole)
qed

theorem loading_indicator_scoped_witness:
  "\<not> blank (form_location submission0) \<and> \<not> blank (form_business_type submission0) \<and>
   loading_modal page0 = Some True \<and> (Rejected :: response promise) \<noteq> Pending \<and>
   fst (handleLocationAnalysis_start submission0 page0) = Suspended \<and>
   loading_modal (snd (handleLocationAnalysis_start submission0 page0)) = Some False \<and>
   fst (handleLocationAnalysis numeric0 submission0 Rejected page0) \<noteq> Suspended \<and>
   loading_modal (snd (handleLocationAnalysis numeric0 submission0 Rejected page0)) = Some True"
proof -
  have h1: "\<not> blank (form_location submission0)"
    and h2: "\<not> blank (form_business_type submission0)"
    by (simp_all add: blank_def submission0_def)
  have h3: "loading_modal page0 = Some True"
    by (simp add: page0_def)
  have h4: "(Rejected :: response promise) \<noteq> Pending"
    by simp
  show ?thesis
    using h1 h2 h3 h4 loading_indicator_scoped [OF h1 h2 h3 h4, of numeric0] by simp
qed

text \<open>
  Claim C5. When the location or the business type of a submission is empty (or the form
  has no such field), on a page with the results elements, the handler returns with the
  validation message as the only content and the results section unhidden, and the log
  of effects is as it was: no request has been made.
\<close>

theorem empty_field_blocks_request:
  assumes "blank (form_location ev) \<or> blank (form_business_type ev)"
    and "results_content w = Some old" and "results_section w = Some h"
  shows "handleLocationAnalysis numeric ev outcome w =
           (Returned,
            w\<lparr>results_content :=
                 Some [ErrorMessage (JStr ''Please fill in all required fields'')],
              results_section := Some False\<rparr>) \<and>
         effects (snd (handleLocationAnalysis numeric ev outcome w)) = effects w"
proof -
  have "handleLocationAnalysis_start ev w =
          showError (JStr ''Please fill in all required fields'') w"
    using assms(1) by (simp add: handleLocationAnalysis_start_def)
  also have "\<dots> = (Returned,
            w\<lparr>results_content :=
                 Some [ErrorMessage (JStr ''Please fill in all required fields'')],
              results_section := Some False\<rparr>)"
    using assms(2,3) by (simp add: showError_shown)
  finally show ?thesis
    by (simp add: handleLocationAnalysis_def)
qed

theorem empty_field_blocks_request_witness:
  "(blank (form_location (submission0\<lparr>form_location := Some []\<rparr>)) \<or>
    blank (form_business_type (submission0\<lparr>form_location := Some []\<rparr>))) \<and>
   results_content page0 = Some [] \<and> results_section page0 = Some True \<and>
   results_content (snd (handleLocationAnalysis numeric0 (submission0\<lparr>form_location := Some []\<rparr>)
       Rejected page0)) = Some [ErrorMessage (JStr ''Please fill in all required fields'')] \<and>
   effects (snd (handleLocationAnalysis numeric0 (submission0\<lparr>form_location := Some []\<rparr>)
       Rejected page0)) = []"
proof -
  let ?ev = "submission0\<lparr>form_location := Some []\<rparr>"
  have h1: "blank (form_location ?ev) \<or> blank (form_business_type ?ev)"
    by (simp add: blank_def)
  have h2: "results_content page0 = Some []" and h3: "results_section page0 = Some True"
    by (simp_all add: page0_def)
  show ?thesis
    using h1 h2 h3 empty_field_blocks_request [OF h1 h2 h3, of numeric0 Rejected]
    by (simp add: page0_def)
qed



lemma resume_caught:
  assumes "results_content w = Some old" and "results_section w = Some h"
    and "analysis_try numeric outcome w = (Threw e, w)"
  shows "handleLocationAnalysis_resume numeric outcome w =
           (Returned,
            hideLoading
              (w\<lparr>results_content :=
                   Some [ErrorMessage (JStr ''Network error: Please check your connection'')],
                 results_section := Some False\<rparr>))"
  using assms by (simp add: handleLocationAnalysis_resume_def showError_shown)


lemma try_unparseable:
  assumes "JSON_parse (response_body r) = None"
  shows "analysis_try numeric (Fulfilled r) w = (Threw SyntaxError, w)"
  using assms by (simp add: analysis_try_def)

lemma get_prop_None: "get_prop v k = None \<longleftrightarrow> v = JUndefined \<or> v = JNull"
  by (cases v) simp_all

lemma try_nullish:
  assumes "JSON_parse (response_body r) = Some result"
    and "result = JUndefined \<or> result = JNull"
  shows "analysis_try numeric (Fulfilled r) w = (Threw TypeError, w)"
  using assms by (auto simp: analysis_try_def)

lemma try_backend_failure:
  assumes "JSON_parse (response_body r) = Some result"
    and "get_prop result ''success'' = Some s" and "get_prop result ''error'' = Some e"
    and "\<not> (response_ok r \<and> truthy s)"
  shows "analysis_try numeric (Fulfilled r) w =
           showError (if truthy e then e else JStr ''Analysis failed'') w"
  using assms by (auto simp: analysis_try_def)

lemma try_success:
  assumes "JSON_parse (response_body r) = Some result"
    and "get_prop result ''success'' = Some s" and "response_ok r" and "truthy s"
  shows "analysis_try numeric (Fulfilled r) w = displayResults numeric result w"
  using assms by (simp add: analysis_try_def)

lemma resume_returned:
  assumes "analysis_try numeric outcome w = (Returned, w1)"
  shows "handleLocationAnalysis_resume numeric outcome w = (Returned, hideLoading w1)"
  using assms by (simp add: handleLocationAnalysis_resume_def)

lemma handle_valid:
  assumes "\<not> blank (form_location ev)" and "\<not> blank (form_business_type ev)"
  shows "handleLocationAnalysis numeric ev outcome w =
           handleLocationAnalysis_resume numeric outcome (snd (handleLocationAnalysis_start ev w))"
  using assms by (simp add: handleLocationAnalysis_def start_valid)

lemma hideLoading_content:
  "results_content (hideLoading w) = results_content w"
  "results_section (hideLoading w) = results_section w"
  by (simp_all add: hideLoading_def Let_def split: option.splits)



text \<open>Unfolding the model on a concrete input.\<close>

lemmas handler_defs =
  handleLocationAnalysis_def handleLocationAnalysis_start_def handleLocationAnalysis_resume_def
  analysis_try_def showError_def showLoading_def hideLoading_def displayResults_def
  blank_def analyze_request_def form_value_def

lemmas render_defs =
  render_card_def getConfidenceClass_def Math_round_def ToNumber_def optional_block_def
  js_join_def js_map_li_def interpolate_def

lemmas example_defs =
  page0_def submission0_def result0_def recommendation0_def insights0_def numeric0_def



lemma render_card_missing:
  assumes "get_prop result ''recommendation'' = Some rec"
    and "rec = JUndefined \<or> rec = JNull \<or>
         get_prop rec ''insights'' = Some JUndefined \<or> get_prop rec ''insights'' = Some JNull"
  shows "render_card numeric result = None"
proof -
  consider "rec = JUndefined \<or> rec = JNull"
    | ins where "get_prop rec ''insights'' = Some ins" "ins = JUndefined \<or> ins = JNull"
    using assms(2) by blast
  then show ?thesis
  proof cases
    case 1
    then show ?thesis
      using assms(1) by (auto simp: render_card_def)
  next
    case 2
    then have "get_prop ins k = None" for k
      by auto
    then show ?thesis
      using assms(1) 2(1)
      by (simp add: render_card_def Option.bind_eq_None_conv)
  qed
qed

lemma displayResults_present:
  assumes "results_content w = Some old" and "results_section w = Some h"
  shows "displayResults numeric result w =
           (case render_card numeric result of
              None \<Rightarrow> (Threw TypeError, w)
            | Some c \<Rightarrow>
                (Returned,
                 w\<lparr>results_content := Some [ResultCard c], results_section := Some False,
                   effects := effects w @ [ScrollIntoView]\<rparr>))"
  using assms by (simp add: displayResults_def)

text \<open>
  Claim C6, as amended. For a 2xx response whose body has a truthy \<^verbatim>\<open>success\<close>, on a page
  with the results elements: the renderer reads the fields unconditionally, and whatever
  it throws is caught by the handler. The handler returns, the loading indicator is
  hidden, and the content is the card when the template could be evaluated and the
  network-error message when it could not; the body's error and "Analysis failed" are
  never shown. When \<^verbatim>\<open>recommendation\<close> or \<^verbatim>\<open>insights\<close> is missing or \<^verbatim>\<open>null\<close>, the
  template cannot be evaluated.
\<close>

theorem malformed_payload_caught:
  assumes "\<not> blank (form_location ev)" and "\<not> blank (form_business_type ev)"
    and "results_content w = Some old" and "results_section w = Some h"
    and "response_ok r" and "JSON_parse (response_body r) = Some result"
    and "get_prop result ''success'' = Some s" and "truthy s"
  shows "fst (handleLocationAnalysis numeric ev (Fulfilled r) w) = Returned \<and>
         loading_modal (snd (handleLocationAnalysis numeric ev (Fulfilled r) w)) =
           map_option (\<lambda>h. True) (loading_modal w) \<and>
         results_content (snd (handleLocationAnalysis numeric ev (Fulfilled r) w)) =
           Some [case render_card numeric result of
                   None \<Rightarrow> ErrorMessage (JStr ''Network error: Please check your connection'')
                 | Some c \<Rightarrow> ResultCard c] \<and>
         ((\<exists>rec. get_prop result ''recommendation'' = Some rec \<and>
                 (rec = JUndefined \<or> rec = JNull \<or>
                  get_prop rec ''insights'' = Some JUndefined \<or>
                  get_prop rec ''insights'' = Some JNull)) \<longrightarrow>
          render_card numeric result = None)"
proof -
  let ?w1 = "snd (handleLocationAnalysis_start ev w)"
  have c: "results_content ?w1 = Some old" and s: "results_section ?w1 = Some h"
    and l: "loading_modal ?w1 = map_option (\<lambda>h. False) (loading_modal w)"
    using assms(1-4) by (simp_all add: start_valid_frame)
  have run: "handleLocationAnalysis numeric ev (Fulfilled r) w =
               handleLocationAnalysis_resume numeric (Fulfilled r) ?w1"
    using assms(1,2) by (rule handle_valid)
  have tried: "analysis_try numeric (Fulfilled r) ?w1 = displayResults numeric result ?w1"
    using assms(6,7,5,8) by (rule try_success)
  have modal: "loading_modal (hideLoading (v\<lparr>results_content := x, results_section := y\<rparr>)) =
      map_option (\<lambda>h. True) (loading_modal v)" for v x y
    by (simp add: hideLoading_frame)
  have modal': "loading_modal (hideLoading
        (v\<lparr>results_content := x, results_section := y, effects := z\<rparr>)) =
      map_option (\<lambda>h. True) (loading_modal v)" for v x y z
    by (simp add: hideLoading_frame)
  have main: "fst (handleLocationAnalysis numeric ev (Fulfilled r) w) = Returned \<and>
         loading_modal (snd (handleLocationAnalysis numeric ev (Fulfilled r) w)) =
           map_option (\<lambda>h. True) (loading_modal w) \<and>
         results_content (snd (handleLocationAnalysis numeric ev (Fulfilled r) w)) =
           Some [case render_card numeric result of
                   None \<Rightarrow> ErrorMessage (JStr ''Network error: Please check your connection'')
                 | Some c \<Rightarrow> ResultCard c]"
  proof (cases "render_card numeric result")
    case None
    then have "analysis_try numeric (Fulfilled r) ?w1 = (Threw TypeError, ?w1)"
      using tried displayResults_present [OF c s] by simp
    from resume_caught [OF c s this] show ?thesis
      using None l by (simp add: run hideLoading_content modal option.map_comp comp_def)
  next
    case (Some card)
    then have "analysis_try numeric (Fulfilled r) ?w1 =
        (Returned, ?w1\<lparr>results_content := Some [ResultCard card], results_section := Some False,
                      effects := effects ?w1 @ [ScrollIntoView]\<rparr>)"
      using tried displayResults_present [OF c s] by simp
    from resume_returned [OF this] show ?thesis
      using Some l by (simp add: run hideLoading_content modal' option.map_comp comp_def)
  qed
  show ?thesis
    using main render_card_missing by blast
qed

text \<open>
  Claim C6 as stated fails on the body \<^verbatim>\<open>{"success": true}\<close>: nothing escapes the
  handler; the page shows the network-error message and hides the loading indicator.
\<close>

theorem malformed_payload_counterexample:
  "handleLocationAnalysis numeric0 submission0
     (Fulfilled \<lparr>response_ok = True,
                 response_body = JsonText (JObj [(''success'', JBool True)])\<rparr>)
     page0 =
   (Returned,
    page0\<lparr>loading_modal := Some True,
          results_section := Some False,
          results_content :=
            Some [ErrorMessage (JStr ''Network error: Please check your connection'')],
          effects := [ShowLoading, analyze_request submission0, HideLoading]\<rparr>)"
  by (simp add: handler_defs render_defs example_defs)


theorem malformed_payload_caught_witness:
  "\<not> blank (form_location submission0) \<and> \<not> blank (form_business_type submission0) \<and>
   results_content page0 = Some [] \<and> results_section page0 = Some True \<and>
   response_ok \<lparr>response_ok = True,
                response_body = JsonText (JObj [(''success'', JBool True)])\<rparr> \<and>
   JSON_parse (response_body \<lparr>response_ok = True,
                response_body = JsonText (JObj [(''success'', JBool True)])\<rparr>) =
     Some (JObj [(''success'', JBool True)]) \<and>
   get_prop (JObj [(''success'', JBool True)]) ''success'' = Some (JBool True) \<and>
   truthy (JBool True) \<and>
   get_prop (JObj [(''success'', JBool True)]) ''recommendation'' = Some JUndefined \<and>
   render_card numeric0 (JObj [(''success'', JBool True)]) = None \<and>
   fst (handleLocationAnalysis numeric0 submission0
          (Fulfilled \<lparr>response_ok = True,
                      response_body = JsonText (JObj [(''success'', JBool True)])\<rparr>)
          page0) = Returned \<and>
   results_content
     (snd (handleLocationAnalysis numeric0 submission0
             (Fulfilled \<lparr>response_ok = True,
                         response_body = JsonText (JObj [(''success'', JBool True)])\<rparr>)
             page0)) =
     Some [ErrorMessage (JStr ''Network error: Please check your connection'')]"
proof -
  let ?result = "JObj [(''success'', JBool True)]"
  let ?r = "\<lparr>response_ok = True, response_body = JsonText ?result\<rparr>"
  have h1: "\<not> blank (form_location submission0)"
    and h2: "\<not> blank (form_business_type submission0)"
    by (simp_all add: blank_def submission0_def)
  have h3: "results_content page0 = Some []" and h4: "results_section page0 = Some True"
    by (simp_all add: page0_def)
  have h5: "response_ok ?r" and h6: "JSON_parse (response_body ?r) = Some ?result"
    and h7: "get_prop ?result ''success'' = Some (JBool True)" and h8: "truthy (JBool True)"
    and h9: "get_prop ?result ''recommendation'' = Some JUndefined"
    by simp_all
  note t = malformed_payload_caught [OF h1 h2 h3 h4 h5 h6 h7 h8, of numeric0]
  from t h9 have none: "render_card numeric0 ?result = None"
    by blast
  show ?thesis
    using h1 h2 h3 h4 h5 h6 h7 h8 h9 none t by simp
qed



section \<open>The result card\<close>

lemma displayResults_rendered:
  assumes "results_content w = Some old" and "results_section w = Some h"
    and "displayResults numeric result w = (Returned, w')"
  obtains c where "render_card numeric result = Some c"
    and "results_content w' = Some [ResultCard c]" and "results_section w' = Some False"
  using assms by (auto simp: displayResults_def split: option.splits)

lemma class_of_number:
  "getConfidenceClass numeric (JNum x) =
     Some (if 70 \<le> x then ''confidence-high''
           else if 50 \<le> x then ''confidence-medium'' else ''confidence-low'')"
  by (simp add: getConfidenceClass_def ToNumber_def)

lemma round_of_number: "Math_round numeric (JNum x) = Some (Fin (of_int (round x)))"
  by (simp add: Math_round_def ToNumber_def)




lemma render_card_numbers:
  assumes "render_card numeric result = Some c"
    and "get_prop result ''recommendation'' = Some rec"
    and "get_prop rec ''insights'' = Some ins"
    and "get_prop rec ''confidence_score'' = Some (JNum score)"
    and "get_prop ins ''foot_traffic_score'' = Some (JNum foot)"
    and "get_prop ins ''competition_density'' = Some (JNum dens)"
    and "get_prop ins ''demographic_match'' = Some (JNum demo)"
    and "get_prop ins ''category_gaps'' = Some (JArr gaps)"
  shows "confidence_class c =
           (if 70 \<le> score then ''confidence-high''
            else if 50 \<le> score then ''confidence-medium'' else ''confidence-low'')"
    and "confidence_percent c = Fin (of_int (round score))"
    and "foot_traffic_tile c = Fin (of_int (round foot))"
    and "market_opportunity_tile c = Fin (of_int (round dens))"
    and "demographic_match_tile c = Fin (of_int (round demo))"
    and "market_gaps_tile c = JNum (of_nat (length gaps))"
  using assms
  by (auto simp: render_card_def class_of_number round_of_number interpolate_def
      bind_eq_Some_conv)



text \<open>
  Claim C3. When \<^verbatim>\<open>displayResults\<close> has rendered a result whose confidence score and
  three metric scores are numbers and whose \<^verbatim>\<open>category_gaps\<close> is an array, the content is
  one card; its badge class is \<^verbatim>\<open>confidence-high\<close> exactly when the unrounded score is
  at least 70, \<^verbatim>\<open>confidence-medium\<close> exactly when it is at least 50 and below 70, and
  \<^verbatim>\<open>confidence-low\<close> exactly when it is below 50; the percentage and the first three tiles
  are the scores rounded to an integer at distance at most a half; the fourth tile is
  the number of category gaps.
\<close>

theorem rendered_confidence_and_tiles:
  assumes "results_content w = Some old" and "results_section w = Some h"
    and "displayResults numeric result w = (Returned, w')"
    and "get_prop result ''recommendation'' = Some rec"
    and "get_prop rec ''insights'' = Some ins"
    and "get_prop rec ''confidence_score'' = Some (JNum score)"
    and "get_prop ins ''foot_traffic_score'' = Some (JNum foot)"
    and "get_prop ins ''competition_density'' = Some (JNum dens)"
    and "get_prop ins ''demographic_match'' = Some (JNum demo)"
    and "get_prop ins ''category_gaps'' = Some (JArr gaps)"
  shows "\<exists>c. results_content w' = Some [ResultCard c] \<and>
           (confidence_class c = ''confidence-high'' \<longleftrightarrow> 70 \<le> score) \<and>
           (confidence_class c = ''confidence-medium'' \<longleftrightarrow> 50 \<le> score \<and> score < 70) \<and>
           (confidence_class c = ''confidence-low'' \<longleftrightarrow> score < 50) \<and>
           confidence_percent c = Fin (of_int (round score)) \<and>
           foot_traffic_tile c = Fin (of_int (round foot)) \<and>
           market_opportunity_tile c = Fin (of_int (round dens)) \<and>
           demographic_match_tile c = Fin (of_int (round demo)) \<and>
           \<bar>of_int (round score) - score\<bar> \<le> 1 / 2 \<and> \<bar>of_int (round foot) - foot\<bar> \<le> 1 / 2 \<and>
           \<bar>of_int (round dens) - dens\<bar> \<le> 1 / 2 \<and> \<bar>of_int (round demo) - demo\<bar> \<le> 1 / 2 \<and>
           market_gaps_tile c = JNum (of_nat (length gaps))"
proof -
  from assms(1-3) obtain c where c: "render_card numeric result = Some c"
    and shown: "results_content w' = Some [ResultCard c]"
    by (rule displayResults_rendered)
  note n = render_card_numbers [OF c assms(4-10)]
  have "confidence_class c = ''confidence-high'' \<longleftrightarrow> 70 \<le> score"
    and "confidence_class c = ''confidence-medium'' \<longleftrightarrow> 50 \<le> score \<and> score < 70"
    and "confidence_class c = ''confidence-low'' \<longleftrightarrow> score < 50"
    by (auto simp: n(1))
  moreover have "\<bar>of_int (round x) - x\<bar> \<le> 1 / 2" for x :: rat
    by (rule of_int_round_abs_le)
  ultimately show ?thesis
    using shown n(2-6) by blast
qed

theorem rendered_confidence_and_tiles_witness:
  "results_content page0 = Some [] \<and> results_section page0 = Some True \<and>
   fst (displayResults numeric0 result0 page0) = Returned \<and>
   get_prop result0 ''recommendation'' = Some recommendation0 \<and>
   get_prop recommendation0 ''insights'' = Some insights0 \<and>
   get_prop recommendation0 ''confidence_score'' = Some (JNum 82.4) \<and>
   get_prop insights0 ''foot_traffic_score'' = Some (JNum 91.2) \<and>
   get_prop insights0 ''competition_density'' = Some (JNum 40) \<and>
   get_prop insights0 ''demographic_match'' = Some (JNum 77.6) \<and>
   get_prop insights0 ''category_gaps'' = Some (JArr [JStr ''vegan'']) \<and>
   (\<exists>c. results_content (snd (displayResults numeric0 result0 page0)) = Some [ResultCard c] \<and>
        confidence_class c = ''confidence-high'' \<and> confidence_percent c = Fin 82 \<and>
        foot_traffic_tile c = Fin 91 \<and> market_opportunity_tile c = Fin 40 \<and>
        demographic_match_tile c = Fin 78 \<and> market_gaps_tile c = JNum 1)"
proof -
  have h1: "results_content page0 = Some []" and h2: "results_section page0 = Some True"
    by (simp_all add: page0_def)
  have r: "fst (displayResults numeric0 result0 page0) = Returned"
    by (simp add: displayResults_def render_defs example_defs)
  then have h3: "displayResults numeric0 result0 page0 =
      (Returned, snd (displayResults numeric0 result0 page0))"
    by (metis prod.collapse)
  have h4: "get_prop result0 ''recommendation'' = Some recommendation0"
    by (simp add: result0_def)
  have h5: "get_prop recommendation0 ''insights'' = Some insights0"
    and h6: "get_prop recommendation0 ''confidence_score'' = Some (JNum 82.4)"
    by (simp_all add: recommendation0_def)
  have h7: "get_prop insights0 ''foot_traffic_score'' = Some (JNum 91.2)"
    and h8: "get_prop insights0 ''competition_density'' = Some (JNum 40)"
    and h9: "get_prop insights0 ''demographic_match'' = Some (JNum 77.6)"
    and h10: "get_prop insights0 ''category_gaps'' = Some (JArr [JStr ''vegan''])"
    by (simp_all add: insights0_def)
  have rounds: "round (412 / 5 :: rat) = 82" "round (456 / 5 :: rat) = 91"
    "round (388 / 5 :: rat) = 78"
    by (simp_all add: round_def floor_rat_numeral)
  from rendered_confidence_and_tiles [OF h1 h2 h3 h4 h5 h6 h7 h8 h9 h10]
  obtain c where "results_content (snd (displayResults numeric0 result0 page0)) =
        Some [ResultCard c]"
    and "confidence_class c = ''confidence-high'' \<longleftrightarrow> (70 :: rat) \<le> 82.4"
    and "confidence_percent c = Fin (of_int (round (82.4 :: rat)))"
    and "foot_traffic_tile c = Fin (of_int (round (91.2 :: rat)))"
    and "market_opportunity_tile c = Fin (of_int (round (40 :: rat)))"
    and "demographic_match_tile c = Fin (of_int (round (77.6 :: rat)))"
    and "market_gaps_tile c = JNum (of_nat (length [JStr ''vegan'']))"
    by blast
  then have "results_content (snd (displayResults numeric0 result0 page0)) = Some [ResultCard c] \<and>
        confidence_class c = ''confidence-high'' \<and> confidence_percent c = Fin 82 \<and>
        foot_traffic_tile c = Fin 91 \<and> market_opportunity_tile c = Fin 40 \<and>
        demographic_match_tile c = Fin 78 \<and> market_gaps_tile c = JNum 1"
    by (simp add: rounds)
  then show ?thesis
    using h1 h2 r h4 h5 h6 h7 h8 h9 h10 by blast
qed





section \<open>One result at a time\<close>























section \<open>The save-list\<close>

lemma saveAnalysis_appends:
  assumes "persisted_sequence w = Some xs" and "location_input w = Some loc"
  shows "saveAnalysis analysisId now w =
           (Returned,
            showSuccess ''Analysis saved successfully!''
              (w\<lparr>saved_analyses :=
                   Some (JSON_stringify (JArr (xs @ [saved_record analysisId now loc])))\<rparr>))"
  using assms
  by (auto simp: saveAnalysis_def persisted_sequence_def split: option.splits jsval.splits)







text \<open>
  Claim C10, as amended. When the stored entry is a string that is not empty and is not
  JSON, \<^verbatim>\<open>saveAnalysis\<close> throws a SyntaxError and leaves everything as it was: no record,
  no write, no banner. The empty sequence is the default when the entry is missing and
  also when it is the empty string, which \<^verbatim>\<open>||\<close> treats like a missing entry; a save
  then stores the one new record.
\<close>

theorem malformed_entry_throws:
  "(saved_analyses w = Some (RawText s) \<and> s \<noteq> [] \<longrightarrow>
      saveAnalysis analysisId now w = (Threw SyntaxError, w)) \<and>
   (saved_analyses w = None \<or> saved_analyses w = Some (RawText []) \<longrightarrow>
      persisted_sequence w = Some [] \<and>
      (\<forall>loc. location_input w = Some loc \<longrightarrow>
         saveAnalysis analysisId now w =
           (Returned,
            showSuccess ''Analysis saved successfully!''
              (w\<lparr>saved_analyses :=
                   Some (JSON_stringify (JArr [saved_record analysisId now loc]))\<rparr>))))"
proof -
  have a: "saveAnalysis analysisId now w = (Threw SyntaxError, w)"
    if "saved_analyses w = Some (RawText s)" "s \<noteq> []"
    using that by (simp add: saveAnalysis_def stored_or_default_def)
  have b: "persisted_sequence w = Some []"
    if "saved_analyses w = None \<or> saved_analyses w = Some (RawText [])"
    using that by (auto simp: persisted_sequence_def stored_or_default_def)
  have c: "saveAnalysis analysisId now w =
           (Returned,
            showSuccess ''Analysis saved successfully!''
              (w\<lparr>saved_analyses :=
                   Some (JSON_stringify (JArr [saved_record analysisId now loc]))\<rparr>))"
    if "saved_analyses w = None \<or> saved_analyses w = Some (RawText [])"
      "location_input w = Some loc" for loc
    using saveAnalysis_appends [OF b [OF that(1)] that(2)] by simp
  show ?thesis
    using a b c by blast
qed

theorem malformed_entry_throws_witness:
  "saved_analyses (page0\<lparr>saved_analyses := Some (RawText ''[{'')\<rparr>) = Some (RawText ''[{'') \<and>
   ''[{'' \<noteq> [] \<and>
   saveAnalysis ''a1'' ''t1'' (page0\<lparr>saved_analyses := Some (RawText ''[{'')\<rparr>) =
     (Threw SyntaxError, page0\<lparr>saved_analyses := Some (RawText ''[{'')\<rparr>) \<and>
   saved_analyses page0 = None \<and> location_input page0 = Some ''Downtown Plaza'' \<and>
   persisted_sequence page0 = Some [] \<and>
   fst (saveAnalysis ''a1'' ''t1'' page0) = Returned"
proof -
  let ?w = "page0\<lparr>saved_analyses := Some (RawText ''[{'')\<rparr>"
  have h1: "saved_analyses ?w = Some (RawText ''[{'')" and h2: "''[{'' \<noteq> []"
    by simp_all
  have h3: "saved_analyses page0 = None" and h4: "location_input page0 = Some ''Downtown Plaza''"
    by (simp_all add: page0_def)
  have a: "saveAnalysis ''a1'' ''t1'' ?w = (Threw SyntaxError, ?w)"
    using h1 h2 malformed_entry_throws [of ?w "''[{''" "''a1''" "''t1''"] by blast
  have b: "persisted_sequence page0 = Some [] \<and> fst (saveAnalysis ''a1'' ''t1'' page0) = Returned"
    using h3 h4 malformed_entry_throws [of page0 "[]" "''a1''" "''t1''"] by simp
  show ?thesis
    using h1 h2 h3 h4 a b by blast
qed

text \<open>
  Claim C10 as stated fails on an entry that holds the empty string: it exists and is not
  JSON, and the save does not throw; it stores the new record and shows the banner.
\<close>

theorem malformed_entry_counterexample:
  "JSON_parse (RawText []) = None \<and>
   saveAnalysis ''a1'' ''t1'' (page0\<lparr>saved_analyses := Some (RawText [])\<rparr>) =
     (Returned,
      page0\<lparr>saved_analyses := Some (JsonText (JArr [saved_record ''a1'' ''t1'' ''Downtown Plaza''])),
            results_content := Some [SuccessMessage ''Analysis saved successfully!'']\<rparr>)"
  by (simp add: saveAnalysis_def stored_or_default_def showSuccess_def JSON_stringify_def
      page0_def)



section \<open>Analytics and the page\<close>

lemma effect_blindI:
  assumes "\<And>es. f (w\<lparr>effects := es\<rparr>) = (c, v\<lparr>effects := es @ new\<rparr>)"
  shows "effect_blind f w"
  unfolding effect_blind_def using assms by blast

lemma effect_blind_cong:
  assumes "\<And>es. f (w\<lparr>effects := es\<rparr>) = g (w\<lparr>effects := es\<rparr>)" and "effect_blind g w"
  shows "effect_blind f w"
  using assms unfolding effect_blind_def by simp

lemma effect_blind_const: "effect_blind (\<lambda>w. (k, w)) w"
  by (rule effect_blindI [where new = "[]" and v = w]) simp

lemma showError_ext:
  "showError m (w\<lparr>effects := es\<rparr>) = (fst (showError m w), (snd (showError m w))\<lparr>effects := es\<rparr>)"
  by (simp add: showError_def Let_def split: option.splits)

lemma hideLoading_ext: "hideLoading (w\<lparr>effects := es\<rparr>) = (hideLoading w)\<lparr>effects := es @ [HideLoading]\<rparr>"
  by (simp add: hideLoading_def Let_def split: option.splits)

lemma showError_blind: "effect_blind (showError m) w"
  by (rule effect_blindI [where new = "[]"]) (simp add: showError_ext)

lemma displayResults_blind: "effect_blind (displayResults numeric result) w"
proof (cases "results_section w = None \<or> results_content w = None")
  case True
  show ?thesis
    by (rule effect_blindI [where new = "[]" and v = w and c = Returned])
      (use True in \<open>simp add: displayResults_def\<close>)
next
  case False
  show ?thesis
  proof (cases "render_card numeric result")
    case None
    show ?thesis
      by (rule effect_blindI [where new = "[]" and v = w and c = "Threw TypeError"])
        (use False None in \<open>auto simp: displayResults_def\<close>)
  next
    case (Some c)
    show ?thesis
      by (rule effect_blindI [where new = "[ScrollIntoView]" and c = Returned
            and v = "w\<lparr>results_content := Some [ResultCard c], results_section := Some False\<rparr>"])
        (use False Some in \<open>auto simp: displayResults_def\<close>)
  qed
qed

lemma analysis_try_blind: "effect_blind (analysis_try numeric outcome) w"
proof (cases outcome)
  case Pending
  have "analysis_try numeric outcome u = (Suspended, u)" for u
    by (simp add: analysis_try_def Pending)
  then show ?thesis
    by (rule effect_blind_cong) (rule effect_blind_const)
next
  case Rejected
  have "analysis_try numeric outcome u = (Threw FetchFailed, u)" for u
    by (simp add: analysis_try_def Rejected)
  then show ?thesis
    by (rule effect_blind_cong) (rule effect_blind_const)
next
  case (Fulfilled r)
  show ?thesis
  proof (cases "JSON_parse (response_body r)")
    case None
    have "analysis_try numeric outcome u = (Threw SyntaxError, u)" for u
      by (simp add: Fulfilled try_unparseable [OF None])
    then show ?thesis
      by (rule effect_blind_cong) (rule effect_blind_const)
  next
    case (Some result)
    consider (null) "result = JUndefined \<or> result = JNull"
      | (shown) s where "get_prop result ''success'' = Some s" "response_ok r" "truthy s"
      | (failed) s e where "get_prop result ''success'' = Some s" "get_prop result ''error'' = Some e"
          "\<not> (response_ok r \<and> truthy s)"
      by (cases "get_prop result ''success''"; cases "get_prop result ''error''")
        (auto simp: get_prop_None)
    then show ?thesis
    proof cases
      case null
      have "analysis_try numeric outcome u = (Threw TypeError, u)" for u
        by (simp add: Fulfilled try_nullish [OF Some null])
      then show ?thesis
        by (rule effect_blind_cong) (rule effect_blind_const)
    next
      case shown
      have "analysis_try numeric outcome u = displayResults numeric result u" for u
        by (simp add: Fulfilled try_success [OF Some shown])
      then show ?thesis
        by (rule effect_blind_cong) (rule displayResults_blind)
    next
      case failed
      have "analysis_try numeric outcome u =
          showError (if truthy e then e else JStr ''Analysis failed'') u" for u
        by (simp only: Fulfilled try_backend_failure [OF Some failed])
      then show ?thesis
        by (rule effect_blind_cong) (rule showError_blind)
    qed
  qed
qed

lemma resume_blind: "effect_blind (handleLocationAnalysis_resume numeric outcome) w"
proof -
  from analysis_try_blind [of numeric outcome w] obtain c v new
    where t: "\<And>es. analysis_try numeric outcome (w\<lparr>effects := es\<rparr>) = (c, v\<lparr>effects := es @ new\<rparr>)"
    unfolding effect_blind_def by blast
  let ?m = "JStr ''Network error: Please check your connection''"
  show ?thesis
  proof (cases c)
    case Returned
    show ?thesis
      by (rule effect_blindI [where new = "new @ [HideLoading]" and c = Returned
            and v = "hideLoading v"])
        (simp add: handleLocationAnalysis_resume_def t Returned hideLoading_ext)
  next
    case (Threw e)
    show ?thesis
      by (rule effect_blindI [where new = "new @ [HideLoading]" and c = "fst (showError ?m v)"
            and v = "hideLoading (snd (showError ?m v))"])
        (simp add: handleLocationAnalysis_resume_def t Threw showError_ext hideLoading_ext)
  next
    case Suspended
    show ?thesis
      by (rule effect_blindI [where new = new and c = Suspended and v = v])
        (simp add: handleLocationAnalysis_resume_def t Suspended)
  qed
qed

lemma start_blind: "effect_blind (handleLocationAnalysis_start ev) w"
proof (cases "blank (form_location ev) \<or> blank (form_business_type ev)")
  case True
  then have "handleLocationAnalysis_start ev u =
      showError (JStr ''Please fill in all required fields'') u" for u
    by (simp add: handleLocationAnalysis_start_def)
  then show ?thesis
    by (rule effect_blind_cong) (rule showError_blind)
next
  case False
  show ?thesis
    by (rule effect_blindI [where new = "[ShowLoading, analyze_request ev]" and c = Suspended
          and v = "showLoading w"])
      (use False in \<open>simp add: handleLocationAnalysis_start_def showLoading_def Let_def
          split: option.splits\<close>)
qed

lemma saveAnalysis_blind: "effect_blind (saveAnalysis analysisId now) w"
  by (rule effect_blindI [where new = "[]" and c = "fst (saveAnalysis analysisId now w)"
        and v = "snd (saveAnalysis analysisId now w)"])
    (simp add: saveAnalysis_def showSuccess_def split: option.splits jsval.splits)

lemma newAnalysis_blind: "effect_blind newAnalysis w"
proof (cases "fst (newAnalysis w) = Returned")
  case True
  show ?thesis
    by (rule effect_blindI [where new = "[FocusLocation]" and c = Returned
          and v = "snd (newAnalysis w)"])
      (use True in \<open>simp add: newAnalysis_def Let_def split: option.splits\<close>)
next
  case False
  show ?thesis
    by (rule effect_blindI [where new = "[]" and c = "fst (newAnalysis w)"
          and v = "snd (newAnalysis w)"])
      (use False in \<open>simp add: newAnalysis_def Let_def split: option.splits\<close>)
qed

lemma sendEvent_blind: "effect_blind (sendEvent eventType data outcome) w"
  by (rule effect_blindI [where c = Returned and v = w
        and new = "FetchPost ''/api/analytics''
                     (JObj [(''event_type'', JStr eventType), (''data'', data)])
                   # (if outcome = Rejected then [ConsoleDebug] else [])"])
    (simp add: sendEvent_def Let_def split: promise.splits)

lemma typeLocation_blind: "effect_blind (\<lambda>w. (Returned, typeLocation x w)) w"
  by (rule effect_blindI [where new = "[]" and c = Returned and v = "typeLocation x w"])
    (simp add: typeLocation_def)

lemma react_blind: "effect_blind (\<lambda>w. (Returned, react numeric e w)) w"
proof -
  have drop: "effect_blind (\<lambda>w. (Returned, snd (f w))) w" if "effect_blind f w"
    for f :: "world \<Rightarrow> completion \<times> world"
  proof -
    from that obtain c v new where "\<And>es. f (w\<lparr>effects := es\<rparr>) = (c, v\<lparr>effects := es @ new\<rparr>)"
      unfolding effect_blind_def by blast
    then show ?thesis
      by (intro effect_blindI [where new = new and c = Returned and v = v]) simp
  qed
  show ?thesis
  proof (cases e)
    case (FormSubmitted ev)
    then show ?thesis using drop [OF start_blind] by simp
  next
    case (AnalyzeSettled outcome)
    then show ?thesis using drop [OF resume_blind] by simp
  next
    case (SaveClicked analysisId now)
    then show ?thesis using drop [OF saveAnalysis_blind] by simp
  next
    case NewAnalysisClicked
    then show ?thesis using drop [OF newAnalysis_blind] by simp
  next
    case (LocationTyped x)
    then show ?thesis using typeLocation_blind by simp
  next
    case (AnalyticsSent eventType data outcome)
    then show ?thesis using drop [OF sendEvent_blind] by simp
  qed
qed

lemma user_visible_eq:
  assumes "user_visible w = user_visible w'"
  shows "w' = w\<lparr>effects := effects w'\<rparr>"
    and "filter user_visible_effect (effects w) = filter user_visible_effect (effects w')"
proof -
  from assms have "effects (user_visible w) = effects (user_visible w')"
    by simp
  then show "filter user_visible_effect (effects w) = filter user_visible_effect (effects w')"
    by (simp add: user_visible_def)
  from assms
  have "(user_visible w)\<lparr>effects := effects w'\<rparr> = (user_visible w')\<lparr>effects := effects w'\<rparr>"
    by simp
  then show "w' = w\<lparr>effects := effects w'\<rparr>"
    by (simp add: user_visible_def)
qed

lemma react_user_visible:
  assumes "user_visible w = user_visible w'"
  shows "user_visible (react numeric e w) = user_visible (react numeric e w')"
proof -
  from react_blind [of numeric e w] obtain v new
    where r: "\<And>es. react numeric e (w\<lparr>effects := es\<rparr>) = v\<lparr>effects := es @ new\<rparr>"
    unfolding effect_blind_def by auto
  note w' = user_visible_eq(1) [OF assms] and f = user_visible_eq(2) [OF assms]
  have a: "react numeric e w = v\<lparr>effects := effects w @ new\<rparr>"
    using r [of "effects w"] by simp
  have b: "react numeric e w' = v\<lparr>effects := effects w' @ new\<rparr>"
    by (subst w') (rule r)
  show ?thesis
    by (simp add: a b f user_visible_def)
qed

lemma run_user_visible:
  "user_visible w = user_visible w' \<Longrightarrow>
   user_visible (run numeric events w) = user_visible (run numeric events w')"
proof (induction events arbitrary: w w')
  case Nil
  then show ?case by simp
next
  case (Cons e events)
  from Cons.IH [OF react_user_visible [OF Cons.prems]] show ?case
    by simp
qed


lemma handle_blind: "effect_blind (handleLocationAnalysis numeric ev outcome) w"
proof (cases "blank (form_location ev) \<or> blank (form_business_type ev)")
  case True
  have "handleLocationAnalysis numeric ev outcome u =
      showError (JStr ''Please fill in all required fields'') u" for u
  proof -
    obtain c u1 where e: "showError (JStr ''Please fill in all required fields'') u = (c, u1)"
      by (cases "showError (JStr ''Please fill in all required fields'') u")
    from showError_frame(1) [OF e] show ?thesis
      using True e by (cases c) (simp_all add: handleLocationAnalysis_def handleLocationAnalysis_start_def)
  qed
  then show ?thesis
    by (rule effect_blind_cong) (rule showError_blind)
next
  case False
  from resume_blind [of numeric outcome "showLoading w"] obtain c v new
    where r: "\<And>es. handleLocationAnalysis_resume numeric outcome ((showLoading w)\<lparr>effects := es\<rparr>) =
      (c, v\<lparr>effects := es @ new\<rparr>)"
    unfolding effect_blind_def by blast
  have s: "showLoading (w\<lparr>effects := es\<rparr>) = (showLoading w)\<lparr>effects := es @ [ShowLoading]\<rparr>" for es
    by (simp add: showLoading_def Let_def split: option.splits)
  show ?thesis
    by (rule effect_blindI [where c = c and v = v
          and new = "[ShowLoading, analyze_request ev] @ new"])
      (use False in \<open>simp add: handleLocationAnalysis_def handleLocationAnalysis_start_def
          Let_def s r\<close>)
qed

lemma effect_blind_user_visible:
  assumes "effect_blind f w" and "user_visible w = user_visible w'"
  shows "fst (f w) = fst (f w')" and "user_visible (snd (f w)) = user_visible (snd (f w'))"
proof -
  from assms(1) obtain c v new
    where r: "\<And>es. f (w\<lparr>effects := es\<rparr>) = (c, v\<lparr>effects := es @ new\<rparr>)"
    unfolding effect_blind_def by blast
  note w' = user_visible_eq(1) [OF assms(2)] and f = user_visible_eq(2) [OF assms(2)]
  have a: "f w = (c, v\<lparr>effects := effects w @ new\<rparr>)"
    using r [of "effects w"] by simp
  have b: "f w' = (c, v\<lparr>effects := effects w' @ new\<rparr>)"
    by (subst w') (rule r)
  show "fst (f w) = fst (f w')"
    by (simp add: a b)
  show "user_visible (snd (f w)) = user_visible (snd (f w'))"
    by (simp add: a b f user_visible_def)
qed

text \<open>
  Claim C9. \<^verbatim>\<open>sendEvent\<close> returns normally whatever becomes of its request. It adds the
  request to the log and, when the request is rejected, one line of the developer
  console; nothing the user can perceive changes. What follows is not affected either:
  the submit handler ends the same way and leaves the same perceivable state as without
  the analytics call, and so does any series of events.
\<close>

theorem analytics_failure_swallowed:
  "fst (sendEvent eventType data outcome w) = Returned \<and>
   effects (snd (sendEvent eventType data outcome w)) =
     effects w @
     FetchPost ''/api/analytics'' (JObj [(''event_type'', JStr eventType), (''data'', data)]) #
     (if outcome = Rejected then [ConsoleDebug] else []) \<and>
   user_visible (snd (sendEvent eventType data outcome w)) = user_visible w \<and>
   fst (handleLocationAnalysis numeric ev settled (snd (sendEvent eventType data outcome w))) =
     fst (handleLocationAnalysis numeric ev settled w) \<and>
   user_visible
     (snd (handleLocationAnalysis numeric ev settled (snd (sendEvent eventType data outcome w)))) =
     user_visible (snd (handleLocationAnalysis numeric ev settled w)) \<and>
   user_visible (run numeric events (snd (sendEvent eventType data outcome w))) =
     user_visible (run numeric events w)"
proof -
  let ?w' = "snd (sendEvent eventType data outcome w)"
  have ret: "fst (sendEvent eventType data outcome w) = Returned"
    by (simp add: sendEvent_def Let_def)
  have log: "effects ?w' =
     effects w @
     FetchPost ''/api/analytics'' (JObj [(''event_type'', JStr eventType), (''data'', data)]) #
     (if outcome = Rejected then [ConsoleDebug] else [])"
    by (simp add: sendEvent_def Let_def split: promise.splits)
  have vis: "user_visible w = user_visible ?w'"
    by (simp add: sendEvent_def Let_def user_visible_def split: promise.splits)
  note h = effect_blind_user_visible [OF handle_blind vis, of numeric ev settled]
  note r = run_user_visible [OF vis, of numeric events]
  show ?thesis
    using ret log vis h r by simp
qed

theorem analytics_failure_swallowed_witness:
  "sendEvent ''page_view'' (JObj [(''page'', JStr ''/'')]) Rejected page0 =
     (Returned,
      page0\<lparr>effects :=
        [FetchPost ''/api/analytics''
           (JObj [(''event_type'', JStr ''page_view''), (''data'', JObj [(''page'', JStr ''/'')])]),
         ConsoleDebug]\<rparr>) \<and>
   user_visible (snd (sendEvent ''page_view'' (JObj [(''page'', JStr ''/'')]) Rejected page0)) =
     user_visible page0 \<and>
   user_visible
     (run numeric0
        [FormSubmitted submission0,
         AnalyzeSettled (Fulfilled \<lparr>response_ok = True, response_body = JsonText result0\<rparr>)]
        (snd (sendEvent ''page_view'' (JObj [(''page'', JStr ''/'')]) Rejected page0))) =
   user_visible
     (run numeric0
        [FormSubmitted submission0,
         AnalyzeSettled (Fulfilled \<lparr>response_ok = True, response_body = JsonText result0\<rparr>)]
        page0)"
proof -
  have "sendEvent ''page_view'' (JObj [(''page'', JStr ''/'')]) Rejected page0 =
     (Returned,
      page0\<lparr>effects :=
        [FetchPost ''/api/analytics''
           (JObj [(''event_type'', JStr ''page_view''), (''data'', JObj [(''page'', JStr ''/'')])]),
         ConsoleDebug]\<rparr>)"
    by (simp add: sendEvent_def page0_def)
  then show ?thesis
    using analytics_failure_swallowed [of "''page_view''" "JObj [(''page'', JStr ''/'')]" Rejected
        page0 numeric0 submission0 Rejected
        "[FormSubmitted submission0,
          AnalyzeSettled (Fulfilled \<lparr>response_ok = True, response_body = JsonText result0\<rparr>)]"]
    by simp
qed

end
